theory Spec2Isabelle
  imports Complex_Main "HOL-Library.Sublist"
begin

section \<open>CarButler: the vehicle record and the maintenance evaluator\<close>

text \<open>
  The development follows \<^verbatim>\<open>main.py\<close>. Python integers are unbounded, so odometer
  readings are \<^typ>\<open>int\<close>. Strings are \<^typ>\<open>string\<close>.
\<close>

subsection \<open>Floating point values\<close>

text \<open>
  The only floating point quantity of the program is the battery voltage, and the only
  operations on it are the comparisons \<^verbatim>\<open>>= 12.4\<close>, \<^verbatim>\<open>>= 12.0\<close> and \<^verbatim>\<open>< 12.0\<close>.
  A finite IEEE 754 double is \<open>m * 2 ^ e\<close> for an integer mantissa \<open>m\<close> below \<open>2 ^ 53\<close>
  in magnitude and an exponent \<open>e\<close> from \<open>-1074\<close> to \<open>971\<close>; comparing two of them
  compares these exact values. No arithmetic is done on voltages, so no rounding occurs.
\<close>

record float64 =
  mant :: int
  expo :: int

definition is_float64 :: "float64 \<Rightarrow> bool" where
  "is_float64 x \<longleftrightarrow> \<bar>mant x\<bar> < 2 ^ 53 \<and> - 1074 \<le> expo x \<and> expo x \<le> 971"

definition fval :: "float64 \<Rightarrow> rat" where
  "fval x = (if 0 \<le> expo x then of_int (mant x) * 2 ^ nat (expo x)
             else of_int (mant x) / 2 ^ nat (- expo x))"

definition float_ge :: "float64 \<Rightarrow> float64 \<Rightarrow> bool" where
  "float_ge x y \<longleftrightarrow> fval y \<le> fval x"

definition float_lt :: "float64 \<Rightarrow> float64 \<Rightarrow> bool" where
  "float_lt x y \<longleftrightarrow> fval x < fval y"

text \<open>
  The literals of the source, as the doubles Python reads them as (the nearest double to
  the decimal text): \<^verbatim>\<open>12.4\<close> is \<^verbatim>\<open>0x1.8cccccccccccdp+3\<close>, \<^verbatim>\<open>12.0\<close> is exact, \<^verbatim>\<open>12.6\<close>
  is \<^verbatim>\<open>0x1.9333333333333p+3\<close>.
\<close>

definition lit_12_4 :: float64 where
  "lit_12_4 = \<lparr>mant = 6980579422424269, expo = - 49\<rparr>"

definition lit_12_0 :: float64 where
  "lit_12_0 = \<lparr>mant = 6755399441055744, expo = - 49\<rparr>"

definition lit_12_6 :: float64 where
  "lit_12_6 = \<lparr>mant = 7093169413108531, expo = - 49\<rparr>"

definition lit_12_39 :: float64 where
  "lit_12_39 = \<lparr>mant = 6974949922890056, expo = - 49\<rparr>"

definition lit_11_99 :: float64 where
  "lit_11_99 = \<lparr>mant = 6749769941521531, expo = - 49\<rparr>"

subsection \<open>Dates\<close>

text \<open>
  A \<^verbatim>\<open>datetime\<close> is its proleptic Gregorian day number (\<^verbatim>\<open>toordinal()\<close>) and the
  microsecond within that day. \<^verbatim>\<open>weekday()\<close> is \<^verbatim>\<open>(toordinal() + 6) % 7\<close>, Monday
  being 0. Adding days beyond \<^verbatim>\<open>datetime.max\<close> (day 3652059) raises OverflowError.
\<close>

record datetime =
  ordinal :: int
  microsecond_of_day :: nat

definition max_ordinal :: int where
  "max_ordinal = 3652059"

definition weekday :: "datetime \<Rightarrow> int" where
  "weekday d = (ordinal d + 6) mod 7"

definition plus_days :: "datetime \<Rightarrow> nat \<Rightarrow> datetime option" where
  "plus_days d i = (if ordinal d + int i \<le> max_ordinal
                    then Some (d\<lparr>ordinal := ordinal d + int i\<rparr>) else None)"

subsection \<open>Class \<^verbatim>\<open>Vehicle\<close>\<close>

text \<open>
  An entry of \<^verbatim>\<open>maintenance_history\<close> is the dictionary with the four keys
  \<^verbatim>\<open>service\<close>, \<^verbatim>\<open>scheduled_date\<close>, \<^verbatim>\<open>mileage\<close> and \<^verbatim>\<open>status\<close> that
  \<^verbatim>\<open>schedule_service\<close> builds; its fields carry the prefix \<open>entry_\<close>. The source
  stores the date as its ISO 8601 text; the record keeps the date that text denotes.
  The attribute \<^verbatim>\<open>make\<close> of a vehicle is the field \<open>make_name\<close>.
\<close>

record history_entry =
  entry_service :: string
  entry_scheduled_date :: datetime
  entry_mileage :: int
  entry_status :: string

record vehicle =
  make_name :: string
  model :: string
  year :: int
  mileage :: int
  vin :: string
  battery_voltage :: float64
  maintenance_history :: "history_entry list"
  last_oil_change :: int
  last_tire_rotation :: int
  last_air_filter :: int

text \<open>
  The constructor. Its four random draws are parameters: the text of the generated VIN,
  and the backlogs drawn from 1000 to 4000, 2000 to 6000 and 10000 to 20000 miles.
\<close>

definition init_vehicle ::
  "string \<Rightarrow> string \<Rightarrow> int \<Rightarrow> int \<Rightarrow> string option \<Rightarrow>
   string \<Rightarrow> int \<Rightarrow> int \<Rightarrow> int \<Rightarrow> vehicle" where
  "init_vehicle mk mdl yr miles given_vin mock_vin oil_backlog tire_backlog air_backlog =
     \<lparr>make_name = mk, model = mdl, year = yr, mileage = miles,
      vin = (case given_vin of
               None \<Rightarrow> mock_vin
             | Some text \<Rightarrow> if text = [] then mock_vin else text),
      battery_voltage = lit_12_6,
      maintenance_history = [],
      last_oil_change = miles - oil_backlog,
      last_tire_rotation = miles - tire_backlog,
      last_air_filter = miles - air_backlog\<rparr>"

subsection \<open>Class \<^verbatim>\<open>MaintenanceSchedule\<close>\<close>

definition INTERVALS :: "string \<rightharpoonup> int \<times> int" where
  "INTERVALS = map_of
     [(''oil_change'', (5000, 7500)),
      (''tire_rotation'', (5000, 8000)),
      (''air_filter'', (15000, 30000)),
      (''brake_inspection'', (20000, 20000)),
      (''coolant_flush'', (30000, 30000)),
      (''transmission_service'', (30000, 60000))]"

type_synonym due_item = "string \<times> int \<times> string"

text \<open>
  \<^verbatim>\<open>check_maintenance_due\<close> starts from the empty list and appends in three steps, one
  per service. Each step is a function from the list so far to the list after it; the
  vehicle is only read.
\<close>

definition check_oil :: "vehicle \<Rightarrow> due_item list \<Rightarrow> due_item list" where
  "check_oil v due_items =
     (let oil_interval = snd (the (INTERVALS ''oil_change''));
          miles_since_oil = mileage v - last_oil_change v;
          miles_until_oil = oil_interval - miles_since_oil
      in if miles_until_oil \<le> 0 then due_items @ [(''Oil Change'', 0, ''OVERDUE'')]
         else if miles_until_oil \<le> 500
           then due_items @ [(''Oil Change'', miles_until_oil, ''DUE SOON'')]
         else if miles_until_oil \<le> 1000
           then due_items @ [(''Oil Change'', miles_until_oil, ''UPCOMING'')]
         else due_items)"

definition check_tire :: "vehicle \<Rightarrow> due_item list \<Rightarrow> due_item list" where
  "check_tire v due_items =
     (let tire_interval = snd (the (INTERVALS ''tire_rotation''));
          miles_since_tire = mileage v - last_tire_rotation v;
          miles_until_tire = tire_interval - miles_since_tire
      in if miles_until_tire \<le> 0 then due_items @ [(''Tire Rotation'', 0, ''OVERDUE'')]
         else if miles_until_tire \<le> 500
           then due_items @ [(''Tire Rotation'', miles_until_tire, ''DUE SOON'')]
         else if miles_until_tire \<le> 1000
           then due_items @ [(''Tire Rotation'', miles_until_tire, ''UPCOMING'')]
         else due_items)"

definition check_air :: "vehicle \<Rightarrow> due_item list \<Rightarrow> due_item list" where
  "check_air v due_items =
     (let air_interval = snd (the (INTERVALS ''air_filter''));
          miles_since_air = mileage v - last_air_filter v;
          miles_until_air = air_interval - miles_since_air
      in if miles_until_air \<le> 0 then due_items @ [(''Air Filter'', 0, ''OVERDUE'')]
         else if miles_until_air \<le> 2000
           then due_items @ [(''Air Filter'', miles_until_air, ''UPCOMING'')]
         else due_items)"

definition check_maintenance_due :: "vehicle \<Rightarrow> due_item list" where
  "check_maintenance_due v = check_air v (check_tire v (check_oil v []))"

text \<open>The items of one service in an evaluator result.\<close>

definition items_of :: "string \<Rightarrow> due_item list \<Rightarrow> due_item list" where
  "items_of name items = filter (\<lambda>item. fst item = name) items"

section \<open>The command line application\<close>

subsection \<open>Console, clock and collaborators\<close>

text \<open>
  A call of one of the menu operations reads lines from standard input. The lines still
  to be read are a list; \<^verbatim>\<open>input()\<close> takes the first one and raises EOFError on the
  empty list. No operation catches EOFError, so it ends the call (and, in \<^verbatim>\<open>main\<close>,
  the process).

  What a call receives from outside the program is collected in an environment: the
  library functions \<^verbatim>\<open>int\<close> (where \<open>None\<close> is ValueError), \<^verbatim>\<open>str.strip\<close> and
  \<^verbatim>\<open>str.lower\<close>, the clock reading of each round of the date loop, the two OBD2 readings
  and the answer of the email service. The mock services draw their answers at random
  (\<^verbatim>\<open>get_mileage\<close> from 1000 to 100000, \<^verbatim>\<open>get_battery_voltage\<close> from 11.5 to 14.5) or
  fix them (\<^verbatim>\<open>send_email\<close> returns True); the environment leaves them open, as the
  collaborator contracts do.
\<close>

record env =
  py_int :: "string \<Rightarrow> int option"
  py_strip :: "string \<Rightarrow> string"
  py_lower :: "string \<Rightarrow> string"
  now :: "nat \<Rightarrow> datetime"
  get_mileage :: int
  get_battery_voltage :: float64
  send_email :: "string \<Rightarrow> bool"

datatype exn = EOFError | OverflowError

datatype colour = Red | Yellow | Green

text \<open>
  The effects of a call besides the change of the vehicles: the calls to the
  collaborators and to \<^verbatim>\<open>save_vehicles\<close>, and the printed lines that report a status.
  \<open>Create_event i s d\<close> is \<^verbatim>\<open>calendar.create_event\<close> for the vehicle in slot \<open>i\<close> of
  \<^verbatim>\<open>self.vehicles\<close>, service \<open>s\<close> and date \<open>d\<close> (its result is only printed);
  \<open>Send_email a ok\<close> is \<^verbatim>\<open>email.send_email\<close> to address \<open>a\<close> with its answer. Menus,
  prompts and the messages of a rejected entry are not recorded.
\<close>

datatype event =
    Save_vehicles "vehicle list"
  | Create_event nat string datetime
  | Send_email string bool
  | Print_mileage_updated int
  | Print_battery_low float64
  | Print_all_up_to_date
  | Print_due colour string int
  | Print_battery_status float64 string
  | Print_no_maintenance_due

record result =
  vehicles_after :: "vehicle list"
  trace :: "event list"
  ending :: "exn option"

definition returned :: "vehicle list \<Rightarrow> event list \<Rightarrow> result" where
  "returned vehicles evs = \<lparr>vehicles_after = vehicles, trace = evs, ending = None\<rparr>"

definition raised :: "vehicle list \<Rightarrow> event list \<Rightarrow> exn \<Rightarrow> result" where
  "raised vehicles evs e = \<lparr>vehicles_after = vehicles, trace = evs, ending = Some e\<rparr>"

text \<open>The closing \<^verbatim>\<open>input("Press Enter to continue...")\<close> of an operation.\<close>

definition press_enter :: "vehicle list \<Rightarrow> event list \<Rightarrow> string list \<Rightarrow> result" where
  "press_enter vehicles evs inp =
     (case inp of [] \<Rightarrow> raised vehicles evs EOFError | _ # _ \<Rightarrow> returned vehicles evs)"

definition says_y :: "env \<Rightarrow> string \<Rightarrow> bool" where
  "says_y env line \<longleftrightarrow> py_lower env (py_strip env line) = ''y''"

text \<open>
  The loop \<^verbatim>\<open>while True: try: choice = int(input(...).strip()) ... except ValueError\<close>
  that accepts a number from 1 to \<open>n\<close>; the source has it in \<^verbatim>\<open>select_vehicle\<close> and
  twice in \<^verbatim>\<open>schedule_service\<close>. It returns the choice and the lines left.
\<close>

fun prompt_choice :: "env \<Rightarrow> nat \<Rightarrow> string list \<Rightarrow> (int \<times> string list) option" where
  "prompt_choice env n [] = None"
| "prompt_choice env n (line # rest) =
     (case py_int env (py_strip env line) of
        None \<Rightarrow> prompt_choice env n rest
      | Some choice \<Rightarrow>
          if 1 \<le> choice \<and> choice \<le> int n then Some (choice, rest)
          else prompt_choice env n rest)"

text \<open>
  \<^verbatim>\<open>select_vehicle\<close> returns a reference into \<^verbatim>\<open>self.vehicles\<close>; here it returns the
  slot. The vehicles of the list are distinct objects (each is built by its own
  constructor call), so a later attribute assignment is an update of that slot.
\<close>

definition select_vehicle ::
  "env \<Rightarrow> vehicle list \<Rightarrow> string list \<Rightarrow> exn + (nat option \<times> string list)" where
  "select_vehicle env vehicles inp =
     (if vehicles = [] then Inr (None, inp)
      else case prompt_choice env (length vehicles) inp of
             None \<Rightarrow> Inl EOFError
           | Some (choice, rest) \<Rightarrow> Inr (Some (nat (choice - 1)), rest))"

subsection \<open>\<^verbatim>\<open>update_mileage\<close>\<close>

text \<open>The manual entry loop: a number not below the current mileage is accepted.\<close>

fun prompt_mileage :: "env \<Rightarrow> int \<Rightarrow> string list \<Rightarrow> (int \<times> string list) option" where
  "prompt_mileage env current [] = None"
| "prompt_mileage env current (line # rest) =
     (case py_int env (py_strip env line) of
        None \<Rightarrow> prompt_mileage env current rest
      | Some new_mileage \<Rightarrow>
          if new_mileage \<ge> current then Some (new_mileage, rest)
          else prompt_mileage env current rest)"

text \<open>The part after the update: save, report, battery check, closing prompt.\<close>

definition after_update :: "vehicle list \<Rightarrow> nat \<Rightarrow> string list \<Rightarrow> result" where
  "after_update vehicles i inp =
     (let vehicle = vehicles ! i
      in press_enter vehicles
           ([Save_vehicles vehicles, Print_mileage_updated (mileage vehicle)] @
            (if float_lt (battery_voltage vehicle) lit_12_0
             then [Print_battery_low (battery_voltage vehicle)] else []))
           inp)"

definition update_mileage :: "env \<Rightarrow> vehicle list \<Rightarrow> string list \<Rightarrow> result" where
  "update_mileage env vehicles inp =
     (case select_vehicle env vehicles inp of
        Inl e \<Rightarrow> raised vehicles [] e
      | Inr (None, rest) \<Rightarrow> returned vehicles []
      | Inr (Some i, rest) \<Rightarrow>
          (case rest of
             [] \<Rightarrow> raised vehicles [] EOFError
           | use_obd2 # rest \<Rightarrow>
               if says_y env use_obd2 then
                 (let new_mileage = get_mileage env;
                      battery = get_battery_voltage env
                  in case rest of
                       [] \<Rightarrow> raised vehicles [] EOFError
                     | confirm # rest \<Rightarrow>
                         if says_y env confirm
                         then after_update
                                (vehicles[i := (vehicles ! i)
                                   \<lparr>mileage := new_mileage, battery_voltage := battery\<rparr>])
                                i rest
                         else returned vehicles [])
               else
                 (case prompt_mileage env (mileage (vehicles ! i)) rest of
                    None \<Rightarrow> raised vehicles [] EOFError
                  | Some (new_mileage, rest) \<Rightarrow>
                      after_update
                        (vehicles[i := (vehicles ! i)\<lparr>mileage := new_mileage\<rparr>]) i rest)))"

subsection \<open>\<^verbatim>\<open>check_maintenance\<close>\<close>

definition battery_status :: "float64 \<Rightarrow> string" where
  "battery_status b =
     (if float_ge b lit_12_4 then ''(Good)''
      else if float_ge b lit_12_0 then ''(Fair)''
      else ''(Poor - Consider replacement)'')"

definition due_line :: "due_item \<Rightarrow> event" where
  "due_line item =
     (case item of (service, miles, status) \<Rightarrow>
        if status = ''OVERDUE'' then Print_due Red service miles
        else if status = ''DUE SOON'' then Print_due Yellow service miles
        else Print_due Green service miles)"

definition check_maintenance :: "env \<Rightarrow> vehicle list \<Rightarrow> string list \<Rightarrow> result" where
  "check_maintenance env vehicles inp =
     (case select_vehicle env vehicles inp of
        Inl e \<Rightarrow> raised vehicles [] e
      | Inr (None, rest) \<Rightarrow> returned vehicles []
      | Inr (Some i, rest) \<Rightarrow>
          (let vehicle = vehicles ! i;
               due_items = check_maintenance_due vehicle
           in press_enter vehicles
                ((if due_items = [] then [Print_all_up_to_date] else map due_line due_items) @
                 [Print_battery_status (battery_voltage vehicle)
                    (battery_status (battery_voltage vehicle))])
                rest))"

subsection \<open>\<^verbatim>\<open>schedule_service\<close>\<close>

text \<open>
  The candidate dates: for \<open>i\<close> from 1 to 7, the clock reading of that round plus \<open>i\<close>
  days, kept when it falls on Monday to Friday.
\<close>

fun candidate_dates :: "env \<Rightarrow> nat list \<Rightarrow> datetime list \<Rightarrow> exn + datetime list" where
  "candidate_dates env [] dates = Inr dates"
| "candidate_dates env (i # is) dates =
     (case plus_days (now env i) i of
        None \<Rightarrow> Inl OverflowError
      | Some date \<Rightarrow>
          candidate_dates env is (if weekday date < 5 then dates @ [date] else dates))"

text \<open>
  The email step: the question, the address when the answer is \<^verbatim>\<open>y\<close>, and the send.
  It returns the events and the lines left, or \<open>None\<close> when the input ends at one of
  its two prompts.
\<close>

definition email_step :: "env \<Rightarrow> string list \<Rightarrow> (event list \<times> string list) option" where
  "email_step env inp =
     (case inp of
        [] \<Rightarrow> None
      | answer # rest \<Rightarrow>
          if says_y env answer then
            (case rest of
               [] \<Rightarrow> None
             | address # rest \<Rightarrow>
                 (let provider_email = py_strip env address
                  in Some ([Send_email provider_email (send_email env provider_email)], rest)))
          else Some ([], rest))"

text \<open>The history update of lines 408 to 413, on the selected vehicle.\<close>

definition append_scheduled :: "vehicle \<Rightarrow> string \<Rightarrow> datetime \<Rightarrow> vehicle" where
  "append_scheduled vehicle selected_service selected_date =
     vehicle\<lparr>maintenance_history := maintenance_history vehicle @
       [\<lparr>entry_service = selected_service,
         entry_scheduled_date = selected_date,
         entry_mileage = mileage vehicle,
         entry_status = ''scheduled''\<rparr>]\<rparr>"

definition schedule_service :: "env \<Rightarrow> vehicle list \<Rightarrow> string list \<Rightarrow> result" where
  "schedule_service env vehicles inp =
     (case select_vehicle env vehicles inp of
        Inl e \<Rightarrow> raised vehicles [] e
      | Inr (None, rest) \<Rightarrow> returned vehicles []
      | Inr (Some i, rest) \<Rightarrow>
          (let vehicle = vehicles ! i;
               due_items = check_maintenance_due vehicle
           in if due_items = [] then press_enter vehicles [Print_no_maintenance_due] rest
              else
                (case prompt_choice env (length due_items) rest of
                   None \<Rightarrow> raised vehicles [] EOFError
                 | Some (choice, rest) \<Rightarrow>
                     (let selected_service = fst (due_items ! nat (choice - 1))
                      in case candidate_dates env [1..<8] [] of
                           Inl e \<Rightarrow> raised vehicles [] e
                         | Inr dates \<Rightarrow>
                             (case prompt_choice env (length dates) rest of
                                None \<Rightarrow> raised vehicles [] EOFError
                              | Some (choice, rest) \<Rightarrow>
                                  (let selected_date = dates ! nat (choice - 1);
                                       created = [Create_event i selected_service selected_date]
                                   in case email_step env rest of
                                        None \<Rightarrow> raised vehicles created EOFError
                                      | Some (sent, rest) \<Rightarrow>
                                          (let vehicles' = vehicles
                                                 [i := append_scheduled vehicle
                                                         selected_service selected_date]
                                           in press_enter vehicles'
                                                (created @ sent @ [Save_vehicles vehicles'])
                                                rest)))))))"

text \<open>
  Scheduling several times in a row, as the menu loop does: each call has its own
  environment and input lines and starts from the vehicles the call before left. An
  exception ends the process, so no call follows one that raised.
\<close>

fun schedule_runs :: "(env \<times> string list) list \<Rightarrow> vehicle list \<Rightarrow> result list" where
  "schedule_runs [] vehicles = []"
| "schedule_runs ((env, inp) # runs) vehicles =
     (let r = schedule_service env vehicles inp
      in r # (if ending r = None then schedule_runs runs (vehicles_after r) else []))"

definition final_vehicles :: "vehicle list \<Rightarrow> result list \<Rightarrow> vehicle list" where
  "final_vehicles vehicles rs = (if rs = [] then vehicles else vehicles_after (last rs))"

subsection \<open>Fixtures\<close>

text \<open>
  A vehicle with given odometer readings, and an environment for ASCII input: decimal
  numbers with an optional minus sign, blanks stripped, capitals lowered. The clock
  stands at day 739000, a Wednesday.
\<close>

definition fixture :: "int \<Rightarrow> int \<Rightarrow> int \<Rightarrow> int \<Rightarrow> vehicle" where
  "fixture m oil tire air =
     \<lparr>make_name = ''Toyota'', model = ''Camry'', year = 2020, mileage = m,
      vin = ''MOCK12345'', battery_voltage = lit_12_6, maintenance_history = [],
      last_oil_change = oil, last_tire_rotation = tire, last_air_filter = air\<rparr>"

definition digit_val :: "char \<Rightarrow> int option" where
  "digit_val c = (let k = (of_char c :: int) in if 48 \<le> k \<and> k \<le> 57 then Some (k - 48) else None)"

fun digits_val :: "int \<Rightarrow> string \<Rightarrow> int option" where
  "digits_val acc [] = Some acc"
| "digits_val acc (c # cs) =
     (case digit_val c of None \<Rightarrow> None | Some d \<Rightarrow> digits_val (10 * acc + d) cs)"

definition ascii_int :: "string \<Rightarrow> int option" where
  "ascii_int s =
     (case s of
        [] \<Rightarrow> None
      | c # cs \<Rightarrow>
          if c = CHR ''-'' then
            (if cs = [] then None else map_option uminus (digits_val 0 cs))
          else digits_val 0 s)"

definition ascii_strip :: "string \<Rightarrow> string" where
  "ascii_strip s = rev (dropWhile (\<lambda>c. c = CHR '' '') (rev (dropWhile (\<lambda>c. c = CHR '' '') s)))"

definition ascii_lower :: "string \<Rightarrow> string" where
  "ascii_lower s =
     map (\<lambda>c. let k = (of_char c :: int) in if 65 \<le> k \<and> k \<le> 90 then char_of (k + 32) else c) s"

definition test_env :: "int \<Rightarrow> float64 \<Rightarrow> bool \<Rightarrow> env" where
  "test_env obd2_mileage obd2_voltage email_ok =
     \<lparr>py_int = ascii_int, py_strip = ascii_strip, py_lower = ascii_lower,
      now = (\<lambda>i. \<lparr>ordinal = 739000, microsecond_of_day = 0\<rparr>),
      get_mileage = obd2_mileage, get_battery_voltage = obd2_voltage,
      send_email = (\<lambda>address. email_ok)\<rparr>"

text \<open>
  The relation between the odometer and the last-service readings that the data model
  asks for.
\<close>

definition odometer_invariant :: "vehicle \<Rightarrow> bool" where
  "odometer_invariant v \<longleftrightarrow>
     last_oil_change v \<le> mileage v \<and> last_tire_rotation v \<le> mileage v \<and>
     last_air_filter v \<le> mileage v"

text \<open>History entries and scheduling calls used as examples.\<close>

definition scheduled_entry :: "vehicle \<Rightarrow> string \<Rightarrow> datetime \<Rightarrow> history_entry" where
  "scheduled_entry v s d =
     \<lparr>entry_service = s, entry_scheduled_date = d, entry_mileage = mileage v,
      entry_status = ''scheduled''\<rparr>"

definition oil_entry :: history_entry where
  "oil_entry = \<lparr>entry_service = ''Oil Change'',
     entry_scheduled_date = \<lparr>ordinal = 739001, microsecond_of_day = 0\<rparr>,
     entry_mileage = 50000, entry_status = ''scheduled''\<rparr>"

definition old_entry :: history_entry where
  "old_entry = \<lparr>entry_service = ''Tire Rotation'',
     entry_scheduled_date = \<lparr>ordinal = 738000, microsecond_of_day = 0\<rparr>,
     entry_mileage = 41000, entry_status = ''scheduled''\<rparr>"

definition serviced :: vehicle where
  "serviced = (fixture 50000 42600 46000 35000)\<lparr>maintenance_history := [old_entry]\<rparr>"

definition two_runs :: "(env \<times> string list) list" where
  "two_runs =
     [(test_env 1000 lit_12_6 True, [''1'', ''1'', ''1'', ''y'', ''shop@example.com'', ''ok'']),
      (test_env 1000 lit_12_6 False, [''1'', ''x'', ''1'', ''9'', ''3'', ''n'', ''ok''])]"

section \<open>Properties of the evaluator\<close>

lemma oil_interval: "snd (the (INTERVALS ''oil_change'')) = 7500"
  by (simp add: INTERVALS_def)

lemma tire_interval: "snd (the (INTERVALS ''tire_rotation'')) = 8000"
  by (simp add: INTERVALS_def)

lemma air_interval: "snd (the (INTERVALS ''air_filter'')) = 30000"
  by (simp add: INTERVALS_def)

lemma items_of_append: "items_of n (xs @ ys) = items_of n xs @ items_of n ys"
  by (simp add: items_of_def)

lemma items_of_check_oil:
  "n \<noteq> ''Oil Change'' \<Longrightarrow> items_of n (check_oil v xs) = items_of n xs"
  by (simp add: check_oil_def Let_def items_of_def)

lemma items_of_check_tire:
  "n \<noteq> ''Tire Rotation'' \<Longrightarrow> items_of n (check_tire v xs) = items_of n xs"
  by (simp add: check_tire_def Let_def items_of_def)

lemma items_of_check_air:
  "n \<noteq> ''Air Filter'' \<Longrightarrow> items_of n (check_air v xs) = items_of n xs"
  by (simp add: check_air_def Let_def items_of_def)

lemma check_tire_append: "check_tire v xs = xs @ check_tire v []"
  by (simp add: check_tire_def Let_def)

lemma check_air_append: "check_air v xs = xs @ check_air v []"
  by (simp add: check_air_def Let_def)

lemma check_maintenance_due_parts:
  "check_maintenance_due v = check_oil v [] @ check_tire v [] @ check_air v []"
  unfolding check_maintenance_due_def
  by (subst check_air_append, subst check_tire_append) simp

lemma oil_items:
  "items_of ''Oil Change'' (check_maintenance_due v) = check_oil v []"
  by (simp add: check_maintenance_due_def items_of_check_air items_of_check_tire)
     (simp add: check_oil_def Let_def items_of_def)

lemma tire_items:
  "items_of ''Tire Rotation'' (check_maintenance_due v) = check_tire v []"
  by (simp add: check_maintenance_due_parts items_of_append)
     (simp add: items_of_def check_oil_def check_tire_def check_air_def Let_def)

lemma air_items:
  "items_of ''Air Filter'' (check_maintenance_due v) = check_air v []"
  by (simp add: check_maintenance_due_parts items_of_append)
     (simp add: items_of_def check_oil_def check_tire_def check_air_def Let_def)

text \<open>
  Claim C1. The oil change item follows the band of the miles driven since the last oil
  change, \<open>mileage - last_oil_change\<close>: from 7500 on the item is OVERDUE (with 0 miles);
  from 7000 to below 7500 it is DUE SOON and carries the miles remaining, which lie in
  \<open>(0, 500]\<close>; from 6500 to below 7000 it is UPCOMING with the miles remaining in
  \<open>(500, 1000]\<close>; below 6500 the result has no oil change item. The witness includes
  the vehicle at 50000 miles with the last oil change at 42600: 100 miles remain, DUE SOON.
\<close>

theorem oil_change_bands:
  "(7500 \<le> mileage v - last_oil_change v \<longrightarrow>
      items_of ''Oil Change'' (check_maintenance_due v) = [(''Oil Change'', 0, ''OVERDUE'')]) \<and>
   (7000 \<le> mileage v - last_oil_change v \<and> mileage v - last_oil_change v < 7500 \<longrightarrow>
      items_of ''Oil Change'' (check_maintenance_due v) =
        [(''Oil Change'', 7500 - (mileage v - last_oil_change v), ''DUE SOON'')] \<and>
      0 < 7500 - (mileage v - last_oil_change v) \<and>
      7500 - (mileage v - last_oil_change v) \<le> 500) \<and>
   (6500 \<le> mileage v - last_oil_change v \<and> mileage v - last_oil_change v < 7000 \<longrightarrow>
      items_of ''Oil Change'' (check_maintenance_due v) =
        [(''Oil Change'', 7500 - (mileage v - last_oil_change v), ''UPCOMING'')] \<and>
      500 < 7500 - (mileage v - last_oil_change v) \<and>
      7500 - (mileage v - last_oil_change v) \<le> 1000) \<and>
   (mileage v - last_oil_change v < 6500 \<longrightarrow>
      items_of ''Oil Change'' (check_maintenance_due v) = [])"
  by (simp add: oil_items check_oil_def oil_interval Let_def)

theorem oil_change_bands_witness:
  "items_of ''Oil Change'' (check_maintenance_due (fixture 50000 42600 46000 35000)) =
     [(''Oil Change'', 100, ''DUE SOON'')] \<and>
   items_of ''Oil Change'' (check_maintenance_due (fixture 50000 42500 46000 35000)) =
     [(''Oil Change'', 0, ''OVERDUE'')] \<and>
   items_of ''Oil Change'' (check_maintenance_due (fixture 50000 43500 46000 35000)) =
     [(''Oil Change'', 1000, ''UPCOMING'')] \<and>
   items_of ''Oil Change'' (check_maintenance_due (fixture 50000 43501 46000 35000)) = []"
  using oil_change_bands [of "fixture 50000 42600 46000 35000"]
    oil_change_bands [of "fixture 50000 42500 46000 35000"]
    oil_change_bands [of "fixture 50000 43500 46000 35000"]
    oil_change_bands [of "fixture 50000 43501 46000 35000"]
  by (simp add: fixture_def)

text \<open>
  Claim C4. With \<open>remaining = 30000 - (mileage - last_air_filter)\<close>, the air filter
  item is OVERDUE when \<open>remaining \<le> 0\<close>, UPCOMING when \<open>0 < remaining \<le> 2000\<close>, and
  absent otherwise; no air filter item is ever DUE SOON. The witness includes the vehicle
  at 30000 miles with the last air filter at 10000: no air filter item.
\<close>

theorem air_filter_bands:
  "(30000 - (mileage v - last_air_filter v) \<le> 0 \<longrightarrow>
      items_of ''Air Filter'' (check_maintenance_due v) = [(''Air Filter'', 0, ''OVERDUE'')]) \<and>
   (0 < 30000 - (mileage v - last_air_filter v) \<and>
    30000 - (mileage v - last_air_filter v) \<le> 2000 \<longrightarrow>
      items_of ''Air Filter'' (check_maintenance_due v) =
        [(''Air Filter'', 30000 - (mileage v - last_air_filter v), ''UPCOMING'')]) \<and>
   (2000 < 30000 - (mileage v - last_air_filter v) \<longrightarrow>
      items_of ''Air Filter'' (check_maintenance_due v) = []) \<and>
   (\<forall>item \<in> set (items_of ''Air Filter'' (check_maintenance_due v)).
      snd (snd item) \<noteq> ''DUE SOON'')"
  by (simp add: air_items check_air_def air_interval Let_def)

theorem air_filter_bands_witness:
  "items_of ''Air Filter'' (check_maintenance_due (fixture 30000 28000 27000 10000)) = [] \<and>
   items_of ''Air Filter'' (check_maintenance_due (fixture 30000 28000 27000 0)) =
     [(''Air Filter'', 0, ''OVERDUE'')] \<and>
   items_of ''Air Filter'' (check_maintenance_due (fixture 30000 28000 27000 500)) =
     [(''Air Filter'', 500, ''UPCOMING'')] \<and>
   items_of ''Air Filter'' (check_maintenance_due (fixture 30000 28000 27000 2000)) =
     [(''Air Filter'', 2000, ''UPCOMING'')]"
  using air_filter_bands [of "fixture 30000 28000 27000 10000"]
    air_filter_bands [of "fixture 30000 28000 27000 0"]
    air_filter_bands [of "fixture 30000 28000 27000 500"]
    air_filter_bands [of "fixture 30000 28000 27000 2000"]
  by (simp add: fixture_def)

text \<open>
  Claim C7. The evaluator is a function of the record it is given: it has no state of its
  own and assigns to no attribute of the vehicle, so a call of \<^verbatim>\<open>check_maintenance\<close>,
  which evaluates the selected vehicle, leaves every vehicle as it was. Its result depends
  only on the mileage and the three last-service readings: two records that agree on
  these four fields get the same list, whatever their other fields hold.
\<close>

theorem evaluator_pure:
  "vehicles_after (check_maintenance env vehicles inp) = vehicles \<and>
   (mileage v = mileage w \<and> last_oil_change v = last_oil_change w \<and>
    last_tire_rotation v = last_tire_rotation w \<and> last_air_filter v = last_air_filter w \<longrightarrow>
    check_maintenance_due v = check_maintenance_due w)"
proof -
  have "vehicles_after (press_enter vehicles evs rest) = vehicles" for evs rest
    by (simp add: press_enter_def raised_def returned_def split: list.splits)
  then have "vehicles_after (check_maintenance env vehicles inp) = vehicles"
    by (simp add: check_maintenance_def raised_def returned_def Let_def
        split: sum.splits option.splits prod.splits)
  then show ?thesis
    by (simp add: check_maintenance_due_def check_oil_def check_tire_def check_air_def)
qed

theorem evaluator_pure_witness:
  "check_maintenance_due (fixture 50000 42600 46000 35000) =
     [(''Oil Change'', 100, ''DUE SOON'')] \<and>
   check_maintenance_due
     ((fixture 50000 42600 46000 35000)
        \<lparr>make_name := ''Honda'', battery_voltage := lit_11_99,
         maintenance_history :=
           [\<lparr>entry_service = ''Oil Change'',
             entry_scheduled_date = \<lparr>ordinal = 739001, microsecond_of_day = 0\<rparr>,
             entry_mileage = 50000, entry_status = ''scheduled''\<rparr>]\<rparr>) =
     [(''Oil Change'', 100, ''DUE SOON'')] \<and>
   vehicles_after (check_maintenance (test_env 1000 lit_12_6 True)
       [fixture 50000 42600 46000 35000] [''1'', ''go on'']) =
     [fixture 50000 42600 46000 35000]"
proof -
  let ?v = "fixture 50000 42600 46000 35000"
  let ?w = "?v\<lparr>make_name := ''Honda'', battery_voltage := lit_11_99,
         maintenance_history :=
           [\<lparr>entry_service = ''Oil Change'',
             entry_scheduled_date = \<lparr>ordinal = 739001, microsecond_of_day = 0\<rparr>,
             entry_mileage = 50000, entry_status = ''scheduled''\<rparr>]\<rparr>"
  have v: "check_maintenance_due ?v = [(''Oil Change'', 100, ''DUE SOON'')]"
    by (simp add: fixture_def check_maintenance_due_def check_oil_def check_tire_def
        check_air_def oil_interval tire_interval air_interval)
  show ?thesis
    using evaluator_pure [of "test_env 1000 lit_12_6 True" "[?v]" "[''1'', ''go on'']" ?v ?w]
    by (simp add: v)
qed

lemma subseq_check_oil: "subseq (map fst (check_oil v [])) [''Oil Change'']"
  by (simp add: check_oil_def Let_def)

lemma subseq_check_tire: "subseq (map fst (check_tire v [])) [''Tire Rotation'']"
  by (simp add: check_tire_def Let_def)

lemma subseq_check_air: "subseq (map fst (check_air v [])) [''Air Filter'']"
  by (simp add: check_air_def Let_def)

lemma evaluator_names_in_order:
  "subseq (map fst (check_maintenance_due v)) [''Oil Change'', ''Tire Rotation'', ''Air Filter'']"
proof -
  have "subseq (map fst (check_tire v []) @ map fst (check_air v []))
          ([''Tire Rotation''] @ [''Air Filter''])"
    by (rule list_emb_append_mono [OF subseq_check_tire subseq_check_air])
  then have "subseq
      (map fst (check_oil v []) @ map fst (check_tire v []) @ map fst (check_air v []))
      ([''Oil Change''] @ [''Tire Rotation''] @ [''Air Filter''])"
    by (rule list_emb_append_mono [OF subseq_check_oil])
  then show ?thesis
    by (simp add: check_maintenance_due_parts)
qed

lemma statuses_known:
  "item \<in> set (check_maintenance_due v) \<Longrightarrow>
     snd (snd item) \<in> {''OVERDUE'', ''DUE SOON'', ''UPCOMING''}"
  by (auto simp: check_maintenance_due_parts check_oil_def check_tire_def check_air_def Let_def
      split: if_splits)

text \<open>
  Claim C8. The names in the result form a subsequence of Oil Change, Tire Rotation, Air
  Filter: the order is that of the three checks, never that of urgency, and no service
  appears twice. A service whose miles remaining exceed its last threshold (1000 for oil
  change and tire rotation, 2000 for air filter) has no item, and every item that is
  present is OVERDUE, DUE SOON or UPCOMING. The witness shows an UPCOMING oil change
  ahead of an OVERDUE tire rotation.
\<close>

theorem evaluator_fixed_order:
  "subseq (map fst (check_maintenance_due v)) [''Oil Change'', ''Tire Rotation'', ''Air Filter''] \<and>
   (1000 < 7500 - (mileage v - last_oil_change v) \<longrightarrow>
      items_of ''Oil Change'' (check_maintenance_due v) = []) \<and>
   (1000 < 8000 - (mileage v - last_tire_rotation v) \<longrightarrow>
      items_of ''Tire Rotation'' (check_maintenance_due v) = []) \<and>
   (2000 < 30000 - (mileage v - last_air_filter v) \<longrightarrow>
      items_of ''Air Filter'' (check_maintenance_due v) = []) \<and>
   (\<forall>item \<in> set (check_maintenance_due v).
      snd (snd item) \<in> {''OVERDUE'', ''DUE SOON'', ''UPCOMING''})"
proof -
  have "1000 < 7500 - (mileage v - last_oil_change v) \<longrightarrow>
      items_of ''Oil Change'' (check_maintenance_due v) = []"
    by (simp add: oil_items check_oil_def oil_interval Let_def)
  moreover have "1000 < 8000 - (mileage v - last_tire_rotation v) \<longrightarrow>
      items_of ''Tire Rotation'' (check_maintenance_due v) = []"
    by (simp add: tire_items check_tire_def tire_interval Let_def)
  moreover have "2000 < 30000 - (mileage v - last_air_filter v) \<longrightarrow>
      items_of ''Air Filter'' (check_maintenance_due v) = []"
    by (simp add: air_items check_air_def air_interval Let_def)
  ultimately show ?thesis
    using evaluator_names_in_order [of v] statuses_known [of _ v] by blast
qed

theorem evaluator_fixed_order_witness:
  "check_maintenance_due (fixture 50000 43500 41000 35000) =
     [(''Oil Change'', 1000, ''UPCOMING''), (''Tire Rotation'', 0, ''OVERDUE'')] \<and>
   subseq [''Oil Change'', ''Tire Rotation''] [''Oil Change'', ''Tire Rotation'', ''Air Filter''] \<and>
   items_of ''Air Filter'' (check_maintenance_due (fixture 50000 43500 41000 35000)) = [] \<and>
   items_of ''Oil Change'' (check_maintenance_due (fixture 50000 48000 47000 35000)) = [] \<and>
   items_of ''Tire Rotation'' (check_maintenance_due (fixture 50000 48000 47000 35000)) = []"
proof -
  have v: "check_maintenance_due (fixture 50000 43500 41000 35000) =
     [(''Oil Change'', 1000, ''UPCOMING''), (''Tire Rotation'', 0, ''OVERDUE'')]"
    by (simp add: fixture_def check_maintenance_due_def check_oil_def check_tire_def
        check_air_def oil_interval tire_interval air_interval)
  show ?thesis
    using evaluator_fixed_order [of "fixture 50000 43500 41000 35000"]
      evaluator_fixed_order [of "fixture 50000 48000 47000 35000"]
    by (simp add: v) (simp add: fixture_def)
qed

text \<open>
  Claim C10. An item classified OVERDUE carries 0 miles, not the computed miles
  remaining (which is zero or negative there), and so every miles value in the result is
  non-negative. The witness is a vehicle whose three services are all overdue, the oil
  change by 2500 miles.
\<close>

theorem overdue_miles_zero:
  "\<forall>item \<in> set (check_maintenance_due v).
     (snd (snd item) = ''OVERDUE'' \<longrightarrow> fst (snd item) = 0) \<and> 0 \<le> fst (snd item)"
  by (auto simp: check_maintenance_due_parts check_oil_def check_tire_def check_air_def Let_def
      split: if_splits)

theorem overdue_miles_zero_witness:
  "check_maintenance_due (fixture 60000 50000 50000 20000) =
     [(''Oil Change'', 0, ''OVERDUE''), (''Tire Rotation'', 0, ''OVERDUE''),
      (''Air Filter'', 0, ''OVERDUE'')] \<and>
   7500 - (60000 - 50000) < (0::int)"
proof -
  have v: "check_maintenance_due (fixture 60000 50000 50000 20000) =
     [(''Oil Change'', 0, ''OVERDUE''), (''Tire Rotation'', 0, ''OVERDUE''),
      (''Air Filter'', 0, ''OVERDUE'')]"
    by (simp add: fixture_def check_maintenance_due_def check_oil_def check_tire_def
        check_air_def oil_interval tire_interval air_interval)
  show ?thesis
    using overdue_miles_zero [of "fixture 60000 50000 50000 20000"]
    by (simp add: v)
qed

section \<open>Properties of the battery classifier and of \<^verbatim>\<open>update_mileage\<close>\<close>

subsection \<open>Comparing doubles with the thresholds\<close>

lemma div_pow2_grid:
  assumes "n \<le> p"
  shows "of_int m / (2::rat) ^ n = of_int (m * 2 ^ (p - n)) / 2 ^ p"
proof -
  have "(2::rat) ^ p = 2 ^ n * 2 ^ (p - n)"
    using assms by (simp flip: power_add)
  then show ?thesis by simp
qed

lemma fval_grid:
  assumes "- int p \<le> expo x"
  shows "\<exists>k::int. fval x = of_int k / 2 ^ p"
proof (cases "0 \<le> expo x")
  case True
  then have "fval x = of_int (mant x * 2 ^ nat (expo x) * 2 ^ p) / 2 ^ p"
    by (simp add: fval_def)
  then show ?thesis by blast
next
  case False
  then have e: "fval x = of_int (mant x) / 2 ^ nat (- expo x)"
    by (simp add: fval_def)
  from False assms have "nat (- expo x) \<le> p" by simp
  then have "of_int (mant x) / (2::rat) ^ nat (- expo x) =
      of_int (mant x * 2 ^ (p - nat (- expo x))) / 2 ^ p"
    by (rule div_pow2_grid)
  with e have "fval x = of_int (mant x * 2 ^ (p - nat (- expo x))) / 2 ^ p"
    by (rule trans)
  then show ?thesis by (rule exI)
qed

lemma fval_small:
  assumes "\<bar>mant x\<bar> < 2 ^ q" "expo x \<le> - int p" "0 < p" "p \<le> q"
  shows "fval x < 2 ^ (q - p)"
proof -
  define n where "n = nat (- expo x)"
  have n: "p \<le> n" "expo x < 0" using assms by (simp_all add: n_def)
  have "mant x < 2 ^ q" using assms(1) by arith
  then have "(of_int (mant x) :: rat) < of_int (2 ^ q)"
    by (simp only: of_int_less_iff)
  then have m: "(of_int (mant x) :: rat) < 2 ^ q" by simp
  have "(2::rat) ^ q = 2 ^ (q - p) * 2 ^ p"
    using assms(4) by (simp flip: power_add)
  also have "\<dots> \<le> 2 ^ (q - p) * 2 ^ n"
    using n by (simp add: power_increasing)
  finally have le: "(2::rat) ^ q \<le> 2 ^ (q - p) * 2 ^ n" .
  from m le have "(of_int (mant x) :: rat) < 2 ^ (q - p) * 2 ^ n"
    by (rule less_le_trans)
  then have "(of_int (mant x) :: rat) / 2 ^ n < 2 ^ (q - p)"
    by (simp add: pos_divide_less_eq)
  then show ?thesis using n by (simp add: fval_def n_def)
qed

lemma float_values:
  "fval lit_12_4 = 6980579422424269 / 2 ^ 49"
  "fval lit_12_0 = 12"
  by (simp_all add: fval_def lit_12_4_def lit_12_0_def)

lemma ge_12_4_iff:
  assumes "is_float64 x"
  shows "float_ge x lit_12_4 \<longleftrightarrow> 124 / 10 \<le> fval x"
proof
  assume "float_ge x lit_12_4"
  then have "6980579422424269 / 2 ^ 49 \<le> fval x"
    by (simp add: float_ge_def float_values del: power_numeral)
  moreover have "(124 / 10 :: rat) \<le> 6980579422424269 / 2 ^ 49" by simp
  ultimately show "124 / 10 \<le> fval x" by (rule order_trans[rotated])
next
  assume a: "124 / 10 \<le> fval x"
  show "float_ge x lit_12_4"
  proof (cases "- int 49 \<le> expo x")
    case True
    then obtain k :: int where k: "fval x = of_int k / 2 ^ 49"
      using fval_grid by blast
    have "(124 / 10 :: rat) \<le> of_int k / 2 ^ 49" using a k by simp
    then have "(69805794224242688 :: rat) \<le> of_int (10 * k)"
      by (simp add: field_simps)
    then have "(of_int 69805794224242688 :: rat) \<le> of_int (10 * k)" by simp
    then have "69805794224242688 \<le> 10 * k" by (simp only: of_int_le_iff)
    then have "6980579422424269 \<le> k" by arith
    then have "(of_int 6980579422424269 :: rat) \<le> of_int k" by (simp only: of_int_le_iff)
    then have "(6980579422424269 :: rat) / 2 ^ 49 \<le> of_int k / 2 ^ 49"
      by (simp add: divide_right_mono)
    then show ?thesis
      unfolding float_ge_def float_values k .
  next
    case False
    have "\<bar>mant x\<bar> < 2 ^ 53" using assms by (simp add: is_float64_def)
    moreover have "expo x \<le> - int 50" using False by simp
    ultimately have "fval x < 2 ^ (53 - 50)" by (rule fval_small) simp_all
    then have "fval x < 124 / 10" by simp
    then show ?thesis using a by simp
  qed
qed

lemma ge_12_0_iff: "float_ge x lit_12_0 \<longleftrightarrow> 12 \<le> fval x"
  by (simp add: float_ge_def float_values)

lemma lt_12_0_iff: "float_lt x lit_12_0 \<longleftrightarrow> fval x < 12"
  by (simp add: float_lt_def float_values)

lemma literals_are_doubles:
  "is_float64 lit_12_4" "is_float64 lit_12_0" "is_float64 lit_12_39" "is_float64 lit_11_99" "is_float64 lit_12_6"
  by (simp_all add: is_float64_def lit_12_4_def lit_12_0_def lit_12_39_def lit_11_99_def lit_12_6_def)

text \<open>
  Each literal is the double nearest to its decimal text: the two differ by at most half
  a unit in the last place, which is \<open>2 ^ - 50\<close> for doubles between 8 and 16.
\<close>

lemma literals_nearest:
  "\<bar>fval lit_12_4 - 124 / 10\<bar> \<le> 1 / 2 ^ 50"
  "\<bar>fval lit_12_39 - 1239 / 100\<bar> \<le> 1 / 2 ^ 50"
  "\<bar>fval lit_11_99 - 1199 / 100\<bar> \<le> 1 / 2 ^ 50"
  "\<bar>fval lit_12_6 - 126 / 10\<bar> \<le> 1 / 2 ^ 50"
  by (simp_all add: fval_def lit_12_4_def lit_12_39_def lit_11_99_def lit_12_6_def)

subsection \<open>The update and its battery check\<close>

lemma prompt_choice_range:
  "prompt_choice env n inp = Some (choice, rest) \<Longrightarrow> 1 \<le> choice \<and> choice \<le> int n"
  by (induction inp) (auto split: option.splits if_splits)

lemma select_vehicle_slot:
  "select_vehicle env vehicles inp = Inr (Some i, rest) \<Longrightarrow> i < length vehicles"
  by (auto simp: select_vehicle_def split: if_splits option.splits dest!: prompt_choice_range)

lemma prompt_mileage_ge:
  "prompt_mileage env current inp = Some (new_mileage, rest) \<Longrightarrow> current \<le> new_mileage"
  by (induction inp) (auto split: option.splits if_splits)

lemma press_enter_fields:
  "vehicles_after (press_enter vehicles evs inp) = vehicles"
  "trace (press_enter vehicles evs inp) = evs"
  by (simp_all add: press_enter_def raised_def returned_def split: list.splits)

lemma after_update_fields:
  "vehicles_after (after_update vehicles i inp) = vehicles"
  "trace (after_update vehicles i inp) =
     [Save_vehicles vehicles, Print_mileage_updated (mileage (vehicles ! i))] @
     (if fval (battery_voltage (vehicles ! i)) < 12
      then [Print_battery_low (battery_voltage (vehicles ! i))] else [])"
  by (simp_all add: after_update_def press_enter_fields lt_12_0_iff Let_def)

text \<open>
  What a call of \<^verbatim>\<open>update_mileage\<close> that reports anything reports: the save, the new
  mileage and, for a voltage below 12.0, the warning.
\<close>

lemma update_mileage_trace:
  assumes "select_vehicle env vehicles inp = Inr (Some i, rest)"
    and "trace (update_mileage env vehicles inp) \<noteq> []"
  shows "trace (update_mileage env vehicles inp) =
     [Save_vehicles (vehicles_after (update_mileage env vehicles inp)),
      Print_mileage_updated (mileage (vehicles_after (update_mileage env vehicles inp) ! i))] @
     (if fval (battery_voltage (vehicles_after (update_mileage env vehicles inp) ! i)) < 12
      then [Print_battery_low (battery_voltage (vehicles_after (update_mileage env vehicles inp) ! i))]
      else [])"
  using assms
  by (auto simp: update_mileage_def after_update_fields raised_def returned_def Let_def
      split: list.splits option.splits if_splits)

lemma init_vehicle_invariant:
  assumes "1000 \<le> oil_backlog" "2000 \<le> tire_backlog" "10000 \<le> air_backlog"
  shows "odometer_invariant
     (init_vehicle mk mdl yr miles given_vin mock_vin oil_backlog tire_backlog air_backlog)"
  using assms by (simp add: init_vehicle_def odometer_invariant_def)

lemma manual_update_monotone:
  assumes "select_vehicle env vehicles inp = Inr (Some i, use_obd2 # rest)"
    and "\<not> says_y env use_obd2"
  shows "mileage (vehicles ! i) \<le> mileage (vehicles_after (update_mileage env vehicles inp) ! i)"
proof -
  have i: "i < length vehicles" using assms(1) by (rule select_vehicle_slot)
  show ?thesis
    using assms i
    by (auto simp: update_mileage_def after_update_fields raised_def returned_def
        split: option.splits dest: prompt_mileage_ge)
qed

lemma manual_update_keeps_invariant:
  assumes "select_vehicle env vehicles inp = Inr (Some i, use_obd2 # rest)"
    and "\<not> says_y env use_obd2"
    and "odometer_invariant (vehicles ! i)"
  shows "odometer_invariant (vehicles_after (update_mileage env vehicles inp) ! i)"
proof -
  have i: "i < length vehicles" using assms(1) by (rule select_vehicle_slot)
  show ?thesis
    using assms i
    by (auto simp: update_mileage_def after_update_fields raised_def returned_def
        odometer_invariant_def split: option.splits dest: prompt_mileage_ge)
qed

text \<open>
  Claim C9. The battery label is Good from 12.4 volts on, Fair from 12.0 to below 12.4,
  and Poor below 12.0, for every double \<open>b\<close>, the thresholds taken as the real numbers
  12.4 and 12; the doubles that the literals \<^verbatim>\<open>12.4\<close>, \<^verbatim>\<open>12.39\<close> and \<^verbatim>\<open>11.99\<close>
  denote are Good, Fair and Poor. In \<^verbatim>\<open>update_mileage\<close>, whenever an update is accepted
  (the new mileage is reported), the low battery warning is printed exactly when the
  voltage of the updated vehicle is below 12.0; this covers the manual branch, which
  leaves the voltage as it was, and the OBD2 branch, which stores the reading.
\<close>

theorem battery_thresholds:
  "(is_float64 b \<longrightarrow>
      (124 / 10 \<le> fval b \<longrightarrow> battery_status b = ''(Good)'') \<and>
      (12 \<le> fval b \<and> fval b < 124 / 10 \<longrightarrow> battery_status b = ''(Fair)'') \<and>
      (fval b < 12 \<longrightarrow> battery_status b = ''(Poor - Consider replacement)'')) \<and>
   battery_status lit_12_4 = ''(Good)'' \<and>
   battery_status lit_12_39 = ''(Fair)'' \<and>
   battery_status lit_11_99 = ''(Poor - Consider replacement)'' \<and>
   (select_vehicle env vehicles inp = Inr (Some i, rest) \<and>
    Print_mileage_updated m \<in> set (trace (update_mileage env vehicles inp)) \<longrightarrow>
      (Print_battery_low (battery_voltage (vehicles_after (update_mileage env vehicles inp) ! i))
         \<in> set (trace (update_mileage env vehicles inp)) \<longleftrightarrow>
       fval (battery_voltage (vehicles_after (update_mileage env vehicles inp) ! i)) < 12))"
proof -
  have classes: "is_float64 b \<longrightarrow>
      (124 / 10 \<le> fval b \<longrightarrow> battery_status b = ''(Good)'') \<and>
      (12 \<le> fval b \<and> fval b < 124 / 10 \<longrightarrow> battery_status b = ''(Fair)'') \<and>
      (fval b < 12 \<longrightarrow> battery_status b = ''(Poor - Consider replacement)'')"
    by (simp add: battery_status_def ge_12_4_iff ge_12_0_iff)
  have lits: "battery_status lit_12_4 = ''(Good)''"
    "battery_status lit_12_39 = ''(Fair)''"
    "battery_status lit_11_99 = ''(Poor - Consider replacement)''"
    by (simp_all add: battery_status_def float_ge_def fval_def
        lit_12_4_def lit_12_39_def lit_11_99_def lit_12_0_def)
  have warn: "select_vehicle env vehicles inp = Inr (Some i, rest) \<and>
    Print_mileage_updated m \<in> set (trace (update_mileage env vehicles inp)) \<longrightarrow>
      (Print_battery_low (battery_voltage (vehicles_after (update_mileage env vehicles inp) ! i))
         \<in> set (trace (update_mileage env vehicles inp)) \<longleftrightarrow>
       fval (battery_voltage (vehicles_after (update_mileage env vehicles inp) ! i)) < 12)"
  proof
    assume a: "select_vehicle env vehicles inp = Inr (Some i, rest) \<and>
      Print_mileage_updated m \<in> set (trace (update_mileage env vehicles inp))"
    then have "trace (update_mileage env vehicles inp) \<noteq> []" by auto
    with a have t: "trace (update_mileage env vehicles inp) =
     [Save_vehicles (vehicles_after (update_mileage env vehicles inp)),
      Print_mileage_updated (mileage (vehicles_after (update_mileage env vehicles inp) ! i))] @
     (if fval (battery_voltage (vehicles_after (update_mileage env vehicles inp) ! i)) < 12
      then [Print_battery_low (battery_voltage (vehicles_after (update_mileage env vehicles inp) ! i))]
      else [])"
      using update_mileage_trace by blast
    show "Print_battery_low (battery_voltage (vehicles_after (update_mileage env vehicles inp) ! i))
         \<in> set (trace (update_mileage env vehicles inp)) \<longleftrightarrow>
       fval (battery_voltage (vehicles_after (update_mileage env vehicles inp) ! i)) < 12"
      by (subst t) simp
  qed
  from classes lits warn show ?thesis by (intro conjI)
qed

lemma obd2_low_battery_run:
  "select_vehicle (test_env 51000 lit_11_99 True) [fixture 50000 47000 46000 35000]
     [''1'', ''y'', ''y'', ''ok''] = Inr (Some 0, [''y'', ''y'', ''ok''])"
  "update_mileage (test_env 51000 lit_11_99 True) [fixture 50000 47000 46000 35000]
     [''1'', ''y'', ''y'', ''ok''] =
   returned
     [(fixture 50000 47000 46000 35000)\<lparr>mileage := 51000, battery_voltage := lit_11_99\<rparr>]
     [Save_vehicles
        [(fixture 50000 47000 46000 35000)\<lparr>mileage := 51000, battery_voltage := lit_11_99\<rparr>],
      Print_mileage_updated 51000, Print_battery_low lit_11_99]"
  by code_simp+

lemma manual_run:
  "select_vehicle (test_env 51000 lit_11_99 True) [fixture 50000 47000 46000 35000]
     [''1'', ''n'', ''49000'', ''abc'', '' 50500 '', ''ok''] =
     Inr (Some 0, [''n'', ''49000'', ''abc'', '' 50500 '', ''ok''])"
  "update_mileage (test_env 51000 lit_11_99 True) [fixture 50000 47000 46000 35000]
     [''1'', ''n'', ''49000'', ''abc'', '' 50500 '', ''ok''] =
   returned [fixture 50500 47000 46000 35000]
     [Save_vehicles [fixture 50500 47000 46000 35000], Print_mileage_updated 50500]"
  by code_simp+

theorem battery_thresholds_witness:
  "battery_status lit_12_6 = ''(Good)'' \<and>
   battery_status \<lparr>mant = 49, expo = - 2\<rparr> = ''(Fair)'' \<and>
   battery_status \<lparr>mant = 23, expo = - 1\<rparr> = ''(Poor - Consider replacement)'' \<and>
   Print_battery_low lit_11_99 \<in> set (trace (update_mileage (test_env 51000 lit_11_99 True)
       [fixture 50000 47000 46000 35000] [''1'', ''y'', ''y'', ''ok''])) \<and>
   Print_battery_low lit_12_6 \<notin> set (trace (update_mileage (test_env 51000 lit_11_99 True)
       [fixture 50000 47000 46000 35000]
       [''1'', ''n'', ''49000'', ''abc'', '' 50500 '', ''ok'']))"
proof -
  have f: "is_float64 lit_12_6" "is_float64 \<lparr>mant = 49, expo = - 2\<rparr>"
    "is_float64 \<lparr>mant = 23, expo = - 1\<rparr>"
    by (simp_all add: is_float64_def lit_12_6_def)
  have v: "124 / 10 \<le> fval lit_12_6" "12 \<le> fval \<lparr>mant = 49, expo = - 2\<rparr>"
    "fval \<lparr>mant = 49, expo = - 2\<rparr> < 124 / 10" "fval \<lparr>mant = 23, expo = - 1\<rparr> < 12"
    "fval lit_11_99 < 12" "\<not> fval lit_12_6 < 12"
    by (simp_all add: fval_def lit_12_6_def lit_11_99_def)
  let ?env = "test_env 51000 lit_11_99 True"
  let ?vs = "[fixture 50000 47000 46000 35000]"
  let ?obd = "[''1'', ''y'', ''y'', ''ok'']"
  let ?man = "[''1'', ''n'', ''49000'', ''abc'', '' 50500 '', ''ok'']"
  have classes: "(124 / 10 \<le> fval b \<longrightarrow> battery_status b = ''(Good)'') \<and>
      (12 \<le> fval b \<and> fval b < 124 / 10 \<longrightarrow> battery_status b = ''(Fair)'') \<and>
      (fval b < 12 \<longrightarrow> battery_status b = ''(Poor - Consider replacement)'')"
    if "is_float64 b" for b
    using battery_thresholds [of b ?env ?vs ?obd 0 "tl ?obd" 51000, THEN conjunct1] that
    by (rule mp)
  have good: "battery_status lit_12_6 = ''(Good)''"
    using classes [OF f(1), THEN conjunct1] v(1) by (rule mp)
  have fair: "battery_status \<lparr>mant = 49, expo = - 2\<rparr> = ''(Fair)''"
    using classes [OF f(2), THEN conjunct2, THEN conjunct1] conjI [OF v(2) v(3)] by (rule mp)
  have poor: "battery_status \<lparr>mant = 23, expo = - 1\<rparr> = ''(Poor - Consider replacement)''"
    using classes [OF f(3), THEN conjunct2, THEN conjunct2] v(4) by (rule mp)
  have "Print_battery_low (battery_voltage (vehicles_after (update_mileage ?env ?vs ?obd) ! 0))
         \<in> set (trace (update_mileage ?env ?vs ?obd)) \<longleftrightarrow>
       fval (battery_voltage (vehicles_after (update_mileage ?env ?vs ?obd) ! 0)) < 12"
    using battery_thresholds [of lit_12_6 ?env ?vs ?obd 0 "tl ?obd" 51000]
    by (simp add: obd2_low_battery_run returned_def)
  then have low: "Print_battery_low lit_11_99 \<in> set (trace (update_mileage ?env ?vs ?obd))"
    using v unfolding obd2_low_battery_run(2) by (simp add: returned_def fixture_def)
  have "Print_battery_low (battery_voltage (vehicles_after (update_mileage ?env ?vs ?man) ! 0))
         \<in> set (trace (update_mileage ?env ?vs ?man)) \<longleftrightarrow>
       fval (battery_voltage (vehicles_after (update_mileage ?env ?vs ?man) ! 0)) < 12"
    using battery_thresholds [of lit_12_6 ?env ?vs ?man 0 "tl ?man" 50500]
    by (simp add: manual_run returned_def)
  then have none: "Print_battery_low lit_12_6 \<notin> set (trace (update_mileage ?env ?vs ?man))"
    using v unfolding manual_run(2) by (simp add: returned_def fixture_def)
  from good fair poor low none show ?thesis by (intro conjI)
qed

text \<open>
  Claim C3. An accepted mileage update should never lower the odometer reading. The manual
  branch checks this (\<open>manual_update_monotone\<close>: it re-prompts until the number entered
  is at least the current mileage). The OBD2 branch assigns the reading once the user
  accepts it, without comparing it with the current mileage: a vehicle at 50000 miles,
  an OBD2 reading of 1000 (the mock draws from 1000 to 100000) and the answers
  \<^verbatim>\<open>1\<close>, \<^verbatim>\<open>y\<close>, \<^verbatim>\<open>y\<close> leave the vehicle at 1000 miles, and the call returns normally.
\<close>

theorem obd2_update_lowers_mileage:
  "mileage (fixture 50000 47000 46000 35000) = 50000 \<and>
   ending (update_mileage (test_env 1000 lit_12_6 True) [fixture 50000 47000 46000 35000]
     [''1'', ''y'', ''y'', ''ok'']) = None \<and>
   map mileage (vehicles_after (update_mileage (test_env 1000 lit_12_6 True)
     [fixture 50000 47000 46000 35000] [''1'', ''y'', ''y'', ''ok''])) = [1000]"
  by code_simp

text \<open>
  Claim C2. The mileage should stay at or above each last-service reading through every
  change of a vehicle after its construction. The constructor establishes this
  (\<open>init_vehicle_invariant\<close>), and the manual branch of \<^verbatim>\<open>update_mileage\<close> and
  \<^verbatim>\<open>schedule_service\<close> keep it (\<open>manual_update_keeps_invariant\<close>,
  \<open>schedule_service_keeps_odometer\<close>). The OBD2 branch does not: a vehicle at 60000
  miles with last services at 57000, 56000 and 45000 satisfies the invariant, accepts an
  OBD2 reading of 20000, and then has a mileage below all three readings.
\<close>

theorem obd2_update_breaks_invariant:
  "odometer_invariant (fixture 60000 57000 56000 45000) \<and>
   vehicles_after (update_mileage (test_env 20000 lit_12_6 True)
     [fixture 60000 57000 56000 45000] [''1'', ''y'', ''y'', ''ok'']) =
     [fixture 20000 57000 56000 45000] \<and>
   \<not> odometer_invariant (fixture 20000 57000 56000 45000)"
  by code_simp

section \<open>Properties of \<^verbatim>\<open>schedule_service\<close>\<close>

lemma email_step_events:
  "email_step env inp = Some (sent, rest) \<Longrightarrow>
     sent = [] \<or> (\<exists>a. sent = [Send_email a (send_email env a)])"
  by (auto simp: email_step_def Let_def split: list.splits if_splits)

text \<open>
  The three ways a call of \<^verbatim>\<open>schedule_service\<close> can go: nothing is selected and no
  vehicle changes; a service and a date are selected and the input ends at an email
  prompt, where EOFError leaves the vehicles unchanged; or the email step ends (with no
  email, or with one sent or failed) and the entry is appended and saved.
\<close>

lemma schedule_service_cases:
  fixes env vehicles inp
  defines "r \<equiv> schedule_service env vehicles inp"
  shows
   "(vehicles_after r = vehicles \<and> (\<forall>e \<in> set (trace r). e = Print_no_maintenance_due)) \<or>
    (\<exists>i s d. i < length vehicles \<and> trace r = [Create_event i s d] \<and>
       ending r = Some EOFError \<and> vehicles_after r = vehicles) \<or>
    (\<exists>i s d sent. i < length vehicles \<and>
       trace r = [Create_event i s d] @ sent @ [Save_vehicles (vehicles_after r)] \<and>
       (sent = [] \<or> (\<exists>a. sent = [Send_email a (send_email env a)])) \<and>
       vehicles_after r = vehicles[i := append_scheduled (vehicles ! i) s d])"
proof (cases "select_vehicle env vehicles inp")
  case (Inl e)
  then show ?thesis by (simp add: r_def schedule_service_def raised_def)
next
  case (Inr p)
  obtain sel rest where p: "p = (sel, rest)" by (cases p)
  show ?thesis
  proof (cases sel)
    case None
    then show ?thesis using Inr p by (simp add: r_def schedule_service_def returned_def)
  next
    case (Some i)
    then have i: "i < length vehicles" using Inr p select_vehicle_slot by blast
    show ?thesis
      using Inr p Some i
      by (auto simp: r_def schedule_service_def raised_def returned_def press_enter_fields Let_def
          split: option.splits sum.splits dest: email_step_events)
  qed
qed

lemma schedule_service_length:
  "length (vehicles_after (schedule_service env vehicles inp)) = length vehicles"
  using schedule_service_cases [of env vehicles inp] by auto

lemma history_append_scheduled:
  "maintenance_history (append_scheduled v s d) = maintenance_history v @ [scheduled_entry v s d]"
  by (simp add: append_scheduled_def scheduled_entry_def)

lemma schedule_service_prefix:
  assumes "j < length vehicles"
  shows "prefix (maintenance_history (vehicles ! j))
           (maintenance_history (vehicles_after (schedule_service env vehicles inp) ! j))"
  using schedule_service_cases [of env vehicles inp] assms
  by (auto simp: nth_list_update history_append_scheduled)

lemma schedule_service_selected:
  assumes "ending (schedule_service env vehicles inp) = None"
    and "Create_event i s d \<in> set (trace (schedule_service env vehicles inp))"
  shows "i < length vehicles \<and>
     vehicles_after (schedule_service env vehicles inp) =
       vehicles[i := append_scheduled (vehicles ! i) s d]"
  using schedule_service_cases [of env vehicles inp] assms
  by auto

lemma schedule_service_not_selected:
  assumes "\<not> (\<exists>i s d. Create_event i s d \<in> set (trace (schedule_service env vehicles inp)))"
  shows "vehicles_after (schedule_service env vehicles inp) = vehicles"
  using schedule_service_cases [of env vehicles inp] assms
  by auto

lemma prompt_choice_email [simp]:
  "prompt_choice (env\<lparr>send_email := f\<rparr>) n inp = prompt_choice env n inp"
  by (induction inp) (auto split: option.splits)

lemma candidate_dates_email [simp]:
  "candidate_dates (env\<lparr>send_email := f\<rparr>) is dates = candidate_dates env is dates"
  by (induction "is" arbitrary: dates) (auto split: option.splits)

lemma select_vehicle_email [simp]:
  "select_vehicle (env\<lparr>send_email := f\<rparr>) vehicles inp = select_vehicle env vehicles inp"
  by (simp add: select_vehicle_def)

lemma email_step_email:
  "email_step (env\<lparr>send_email := f\<rparr>) inp =
     map_option
       (\<lambda>(sent, rest). (map (\<lambda>e. case e of Send_email a b \<Rightarrow> Send_email a (f a) | _ \<Rightarrow> e) sent, rest))
       (email_step env inp)"
  by (simp add: email_step_def says_y_def Let_def split: list.splits)

lemma schedule_service_email:
  "vehicles_after (schedule_service (env\<lparr>send_email := f\<rparr>) vehicles inp) =
     vehicles_after (schedule_service env vehicles inp) \<and>
   ending (schedule_service (env\<lparr>send_email := f\<rparr>) vehicles inp) =
     ending (schedule_service env vehicles inp)"
  by (auto simp: schedule_service_def email_step_email press_enter_def raised_def returned_def
      Let_def split: sum.splits option.splits prod.splits list.splits)

lemma schedule_service_keeps_odometer:
  assumes "j < length vehicles"
  shows "mileage (vehicles_after (schedule_service env vehicles inp) ! j) = mileage (vehicles ! j) \<and>
     last_oil_change (vehicles_after (schedule_service env vehicles inp) ! j) =
       last_oil_change (vehicles ! j) \<and>
     last_tire_rotation (vehicles_after (schedule_service env vehicles inp) ! j) =
       last_tire_rotation (vehicles ! j) \<and>
     last_air_filter (vehicles_after (schedule_service env vehicles inp) ! j) =
       last_air_filter (vehicles ! j)"
  using schedule_service_cases [of env vehicles inp] assms
  by (auto simp: nth_list_update append_scheduled_def)

lemma prompt_choice_more:
  "prompt_choice env n inp = Some (choice, rest) \<Longrightarrow>
     prompt_choice env n (inp @ extra) = Some (choice, rest @ extra)"
  by (induction inp) (auto split: option.splits if_splits)

lemma select_vehicle_more:
  "select_vehicle env vehicles inp = Inr (Some i, rest) \<Longrightarrow>
     select_vehicle env vehicles (inp @ extra) = Inr (Some i, rest @ extra)"
  by (auto simp: select_vehicle_def prompt_choice_more split: if_splits option.splits)

lemma email_step_more:
  "\<exists>sent x xs. email_step env (rest @ [l1, l2, l3]) = Some (sent, x # xs)"
proof -
  have ne: "\<exists>x xs. ys @ [l1, l2, l3] = x # xs" for ys :: "string list"
    by (cases ys) simp_all
  show ?thesis
  proof (cases rest)
    case Nil
    then show ?thesis by (simp add: email_step_def Let_def)
  next
    case (Cons a rest')
    then show ?thesis
      using ne [of "tl rest'"] by (cases rest') (auto simp: email_step_def Let_def)
  qed
qed

lemma schedule_service_selection:
  assumes "Create_event i s d \<in> set (trace (schedule_service env vehicles inp))"
  shows "\<exists>r1 c1 r2 dates c2 r3.
     select_vehicle env vehicles inp = Inr (Some i, r1) \<and>
     check_maintenance_due (vehicles ! i) \<noteq> [] \<and>
     prompt_choice env (length (check_maintenance_due (vehicles ! i))) r1 = Some (c1, r2) \<and>
     candidate_dates env [1..<8] [] = Inr dates \<and>
     prompt_choice env (length dates) r2 = Some (c2, r3) \<and>
     s = fst (check_maintenance_due (vehicles ! i) ! nat (c1 - 1)) \<and>
     d = dates ! nat (c2 - 1)"
  using assms
  by (auto simp: schedule_service_def raised_def returned_def press_enter_fields Let_def
      simp del: upt_Suc
      split: sum.splits option.splits prod.splits if_splits dest!: email_step_events)

lemma schedule_service_enough_input:
  assumes "Create_event i s d \<in> set (trace (schedule_service env vehicles inp))"
  shows "ending (schedule_service env vehicles (inp @ [l1, l2, l3])) = None \<and>
     vehicles_after (schedule_service env vehicles (inp @ [l1, l2, l3])) =
       vehicles[i := append_scheduled (vehicles ! i) s d]"
proof -
  from schedule_service_selection [OF assms]
  obtain r1 c1 r2 dates c2 r3 where sel:
     "select_vehicle env vehicles inp = Inr (Some i, r1)"
     "check_maintenance_due (vehicles ! i) \<noteq> []"
     "prompt_choice env (length (check_maintenance_due (vehicles ! i))) r1 = Some (c1, r2)"
     "candidate_dates env [1..<8] [] = Inr dates"
     "prompt_choice env (length dates) r2 = Some (c2, r3)"
     "s = fst (check_maintenance_due (vehicles ! i) ! nat (c1 - 1))"
     "d = dates ! nat (c2 - 1)"
    by blast
  obtain sent x xs where em: "email_step env (r3 @ [l1, l2, l3]) = Some (sent, x # xs)"
    using email_step_more by blast
  show ?thesis
    using sel(2,4,6,7)
    by (simp add: schedule_service_def select_vehicle_more [OF sel(1)]
        prompt_choice_more [OF sel(3)] prompt_choice_more [OF sel(5)] em
        press_enter_def returned_def Let_def del: upt_Suc)
qed

text \<open>
  Claim C6. Once a service \<open>s\<close> and a date \<open>d\<close> were selected for the vehicle in slot
  \<open>i\<close> of a call of \<^verbatim>\<open>schedule_service\<close> (the calendar event was requested), the
  call appends exactly one entry to the history of that vehicle: service \<open>s\<close>, date
  \<open>d\<close>, the mileage the vehicle has at the call, status \<^verbatim>\<open>scheduled\<close>; no other
  vehicle and no other field changes. This is so whatever the email step does: given
  three more lines of input (the answer to the email question, the address, the closing
  Enter) the call returns with the entry appended for every answer and every address;
  every call that returns after the selection has appended it; and the vehicles afterwards
  do not depend on the answer of the email service. When no service and date were
  selected, no vehicle changes. Only the end of input at one of the email prompts keeps a
  call from the update: EOFError ends the call (and the process) there
  (\<open>schedule_service_cases\<close>).
\<close>

theorem history_written_whatever_email:
  "(Create_event i s d \<in> set (trace (schedule_service env vehicles inp)) \<longrightarrow>
      i < length vehicles \<and>
      ending (schedule_service env vehicles (inp @ [l1, l2, l3])) = None \<and>
      vehicles_after (schedule_service env vehicles (inp @ [l1, l2, l3])) =
        vehicles[i := (vehicles ! i)\<lparr>maintenance_history :=
          maintenance_history (vehicles ! i) @
            [\<lparr>entry_service = s, entry_scheduled_date = d,
              entry_mileage = mileage (vehicles ! i), entry_status = ''scheduled''\<rparr>]\<rparr>]) \<and>
   (ending (schedule_service env vehicles inp) = None \<and>
    Create_event i s d \<in> set (trace (schedule_service env vehicles inp)) \<longrightarrow>
      vehicles_after (schedule_service env vehicles inp) =
        vehicles[i := (vehicles ! i)\<lparr>maintenance_history :=
          maintenance_history (vehicles ! i) @
            [\<lparr>entry_service = s, entry_scheduled_date = d,
              entry_mileage = mileage (vehicles ! i), entry_status = ''scheduled''\<rparr>]\<rparr>]) \<and>
   vehicles_after (schedule_service (env\<lparr>send_email := f\<rparr>) vehicles inp) =
     vehicles_after (schedule_service env vehicles inp) \<and>
   ((\<forall>i s d. Create_event i s d \<notin> set (trace (schedule_service env vehicles inp))) \<longrightarrow>
      vehicles_after (schedule_service env vehicles inp) = vehicles)"
proof (intro conjI impI)
  assume a: "Create_event i s d \<in> set (trace (schedule_service env vehicles inp))"
  then obtain r1 where "select_vehicle env vehicles inp = Inr (Some i, r1)"
    using schedule_service_selection by blast
  then show "i < length vehicles" by (rule select_vehicle_slot)
  from a show "ending (schedule_service env vehicles (inp @ [l1, l2, l3])) = None"
    using schedule_service_enough_input by blast
  from a have "vehicles_after (schedule_service env vehicles (inp @ [l1, l2, l3])) =
       vehicles[i := append_scheduled (vehicles ! i) s d]"
    using schedule_service_enough_input by blast
  then show "vehicles_after (schedule_service env vehicles (inp @ [l1, l2, l3])) =
        vehicles[i := (vehicles ! i)\<lparr>maintenance_history :=
          maintenance_history (vehicles ! i) @
            [\<lparr>entry_service = s, entry_scheduled_date = d,
              entry_mileage = mileage (vehicles ! i), entry_status = ''scheduled''\<rparr>]\<rparr>]"
    by (simp add: append_scheduled_def)
next
  assume "ending (schedule_service env vehicles inp) = None \<and>
    Create_event i s d \<in> set (trace (schedule_service env vehicles inp))"
  then have "vehicles_after (schedule_service env vehicles inp) =
       vehicles[i := append_scheduled (vehicles ! i) s d]"
    using schedule_service_selected by blast
  then show "vehicles_after (schedule_service env vehicles inp) =
        vehicles[i := (vehicles ! i)\<lparr>maintenance_history :=
          maintenance_history (vehicles ! i) @
            [\<lparr>entry_service = s, entry_scheduled_date = d,
              entry_mileage = mileage (vehicles ! i), entry_status = ''scheduled''\<rparr>]\<rparr>]"
    by (simp add: append_scheduled_def)
next
  show "vehicles_after (schedule_service (env\<lparr>send_email := f\<rparr>) vehicles inp) =
     vehicles_after (schedule_service env vehicles inp)"
    using schedule_service_email by blast
next
  assume "\<forall>i s d. Create_event i s d \<notin> set (trace (schedule_service env vehicles inp))"
  then show "vehicles_after (schedule_service env vehicles inp) = vehicles"
    using schedule_service_not_selected by blast
qed

lemma run_cut_off:
  "trace (schedule_service (test_env 1000 lit_12_6 True) [fixture 50000 42600 46000 35000]
     [''1'', ''1'', ''1'']) =
   [Create_event 0 ''Oil Change'' \<lparr>ordinal = 739001, microsecond_of_day = 0\<rparr>]"
  "ending (schedule_service (test_env 1000 lit_12_6 True) [fixture 50000 42600 46000 35000]
     [''1'', ''1'', ''1'']) = Some EOFError"
  by code_simp+

lemma run_email_sent:
  "trace (schedule_service (test_env 1000 lit_12_6 True) [fixture 50000 42600 46000 35000]
     [''1'', ''1'', ''1'', ''y'', ''shop@example.com'', ''ok'']) =
   [Create_event 0 ''Oil Change'' \<lparr>ordinal = 739001, microsecond_of_day = 0\<rparr>,
    Send_email ''shop@example.com'' True,
    Save_vehicles [(fixture 50000 42600 46000 35000)\<lparr>maintenance_history := [oil_entry]\<rparr>]]"
  "ending (schedule_service (test_env 1000 lit_12_6 True) [fixture 50000 42600 46000 35000]
     [''1'', ''1'', ''1'', ''y'', ''shop@example.com'', ''ok'']) = None"
  by code_simp+

lemma run_email_failed:
  "trace (schedule_service (test_env 1000 lit_12_6 False) [fixture 50000 42600 46000 35000]
     [''1'', ''1'', ''1'', ''y'', ''shop@example.com'', ''ok'']) =
   [Create_event 0 ''Oil Change'' \<lparr>ordinal = 739001, microsecond_of_day = 0\<rparr>,
    Send_email ''shop@example.com'' False,
    Save_vehicles [(fixture 50000 42600 46000 35000)\<lparr>maintenance_history := [oil_entry]\<rparr>]]"
  "ending (schedule_service (test_env 1000 lit_12_6 False) [fixture 50000 42600 46000 35000]
     [''1'', ''1'', ''1'', ''y'', ''shop@example.com'', ''ok'']) = None"
  by code_simp+

lemma run_email_skipped:
  "trace (schedule_service (test_env 1000 lit_12_6 True) [fixture 50000 42600 46000 35000]
     [''1'', ''1'', ''1'', ''n'', ''ok'']) =
   [Create_event 0 ''Oil Change'' \<lparr>ordinal = 739001, microsecond_of_day = 0\<rparr>,
    Save_vehicles [(fixture 50000 42600 46000 35000)\<lparr>maintenance_history := [oil_entry]\<rparr>]]"
  "ending (schedule_service (test_env 1000 lit_12_6 True) [fixture 50000 42600 46000 35000]
     [''1'', ''1'', ''1'', ''n'', ''ok'']) = None"
  by code_simp+

lemma run_nothing_due:
  "trace (schedule_service (test_env 1000 lit_12_6 True) [fixture 50000 48000 47000 35000]
     [''1'', ''ok'']) = [Print_no_maintenance_due]"
  by code_simp

theorem history_written_whatever_email_witness:
  "vehicles_after (schedule_service (test_env 1000 lit_12_6 True)
      [fixture 50000 42600 46000 35000]
      [''1'', ''1'', ''1'', ''y'', ''shop@example.com'', ''ok'']) =
     [(fixture 50000 42600 46000 35000)\<lparr>maintenance_history := [oil_entry]\<rparr>] \<and>
   vehicles_after (schedule_service (test_env 1000 lit_12_6 False)
      [fixture 50000 42600 46000 35000]
      [''1'', ''1'', ''1'', ''y'', ''shop@example.com'', ''ok'']) =
     [(fixture 50000 42600 46000 35000)\<lparr>maintenance_history := [oil_entry]\<rparr>] \<and>
   vehicles_after (schedule_service (test_env 1000 lit_12_6 True)
      [fixture 50000 42600 46000 35000] [''1'', ''1'', ''1'', ''n'', ''ok'']) =
     [(fixture 50000 42600 46000 35000)\<lparr>maintenance_history := [oil_entry]\<rparr>] \<and>
   vehicles_after (schedule_service (test_env 1000 lit_12_6 True)
      [fixture 50000 48000 47000 35000] [''1'', ''ok'']) =
     [fixture 50000 48000 47000 35000] \<and>
   ending (schedule_service (test_env 1000 lit_12_6 True)
      [fixture 50000 42600 46000 35000] [''1'', ''1'', ''1'']) = Some EOFError \<and>
   ending (schedule_service (test_env 1000 lit_12_6 True)
      [fixture 50000 42600 46000 35000] [''1'', ''1'', ''1'', ''y'', ''shop@example.com'', ''ok'']) =
     None"
proof -
  let ?d = "\<lparr>ordinal = 739001, microsecond_of_day = 0\<rparr>"
  let ?v = "fixture 50000 42600 46000 35000"
  show ?thesis
    using history_written_whatever_email [of 0 "''Oil Change''" ?d "test_env 1000 lit_12_6 True"
        "[?v]" "[''1'', ''1'', ''1'', ''y'', ''shop@example.com'', ''ok'']"]
      history_written_whatever_email [of 0 "''Oil Change''" ?d "test_env 1000 lit_12_6 False"
        "[?v]" "[''1'', ''1'', ''1'', ''y'', ''shop@example.com'', ''ok'']"]
      history_written_whatever_email [of 0 "''Oil Change''" ?d "test_env 1000 lit_12_6 True"
        "[?v]" "[''1'', ''1'', ''1'', ''n'', ''ok'']"]
      history_written_whatever_email [of _ _ _ "test_env 1000 lit_12_6 True"
        "[fixture 50000 48000 47000 35000]" "[''1'', ''ok'']"]
      history_written_whatever_email [of 0 "''Oil Change''" ?d "test_env 1000 lit_12_6 True"
        "[?v]" "[''1'', ''1'', ''1'']" "''y''" "''shop@example.com''" "''ok''"]
    unfolding run_email_sent run_email_failed run_email_skipped run_nothing_due run_cut_off
    by (simp add: fixture_def oil_entry_def)
qed

lemma final_vehicles_Cons:
  "final_vehicles vehicles (r # rs) = final_vehicles (vehicles_after r) rs"
  by (simp add: final_vehicles_def)

lemma final_vehicles_runs:
  "final_vehicles vehicles (schedule_runs ((env, inp) # runs) vehicles) =
     (if ending (schedule_service env vehicles inp) = None
      then final_vehicles (vehicles_after (schedule_service env vehicles inp))
             (schedule_runs runs (vehicles_after (schedule_service env vehicles inp)))
      else vehicles_after (schedule_service env vehicles inp))"
  by (simp add: Let_def final_vehicles_Cons) (simp add: final_vehicles_def)

lemma schedule_runs_prefix:
  "j < length vehicles \<Longrightarrow>
     prefix (maintenance_history (vehicles ! j))
       (maintenance_history (final_vehicles vehicles (schedule_runs runs vehicles) ! j))"
proof (induction runs arbitrary: vehicles)
  case Nil
  then show ?case by (simp add: final_vehicles_def)
next
  case (Cons run runs)
  obtain env inp where run: "run = (env, inp)" by (cases run)
  let ?r = "schedule_service env vehicles inp"
  have step: "prefix (maintenance_history (vehicles ! j)) (maintenance_history (vehicles_after ?r ! j))"
    using Cons.prems by (rule schedule_service_prefix)
  show ?case
  proof (cases "ending ?r = None")
    case True
    have "j < length (vehicles_after ?r)"
      using Cons.prems by (simp add: schedule_service_length)
    then have "prefix (maintenance_history (vehicles_after ?r ! j))
        (maintenance_history
          (final_vehicles (vehicles_after ?r) (schedule_runs runs (vehicles_after ?r)) ! j))"
      by (rule Cons.IH)
    with step show ?thesis
      unfolding run final_vehicles_runs using True by (simp del: schedule_runs.simps)
  next
    case False
    with step show ?thesis
      unfolding run final_vehicles_runs by (auto simp del: schedule_runs.simps)
  qed
qed

lemma schedule_service_grows:
  assumes "ending (schedule_service env vehicles inp) = None"
    and "Create_event j s d \<in> set (trace (schedule_service env vehicles inp))"
  shows "length (maintenance_history (vehicles_after (schedule_service env vehicles inp) ! j)) =
           Suc (length (maintenance_history (vehicles ! j)))"
  using schedule_service_selected [OF assms]
  by (simp add: history_append_scheduled)

lemma schedule_runs_count:
  "j < length vehicles \<Longrightarrow>
   \<forall>r \<in> set (schedule_runs runs vehicles).
      ending r = None \<and> (\<exists>s d. Create_event j s d \<in> set (trace r)) \<Longrightarrow>
   length (schedule_runs runs vehicles) = length runs \<and>
   length (maintenance_history (final_vehicles vehicles (schedule_runs runs vehicles) ! j)) =
     length (maintenance_history (vehicles ! j)) + length runs"
proof (induction runs arbitrary: vehicles)
  case Nil
  then show ?case by (simp add: final_vehicles_def)
next
  case (Cons run runs)
  obtain env inp where run: "run = (env, inp)" by (cases run)
  let ?r = "schedule_service env vehicles inp"
  have in_set: "?r \<in> set (schedule_runs (run # runs) vehicles)"
    by (simp add: run Let_def)
  then have ret: "ending ?r = None" and ev: "\<exists>s d. Create_event j s d \<in> set (trace ?r)"
    using Cons.prems(2) by blast+
  from ev obtain s d where "Create_event j s d \<in> set (trace ?r)" by blast
  with ret have grow: "length (maintenance_history (vehicles_after ?r ! j)) =
      Suc (length (maintenance_history (vehicles ! j)))"
    by (rule schedule_service_grows)
  have j: "j < length (vehicles_after ?r)"
    using Cons.prems(1) by (simp add: schedule_service_length)
  have rest: "\<forall>r \<in> set (schedule_runs runs (vehicles_after ?r)).
      ending r = None \<and> (\<exists>s d. Create_event j s d \<in> set (trace r))"
    using Cons.prems(2) ret by (simp add: run Let_def)
  have IH: "length (schedule_runs runs (vehicles_after ?r)) = length runs \<and>
      length (maintenance_history
        (final_vehicles (vehicles_after ?r) (schedule_runs runs (vehicles_after ?r)) ! j)) =
      length (maintenance_history (vehicles_after ?r ! j)) + length runs"
    using j rest by (rule Cons.IH)
  have len: "length (schedule_runs (run # runs) vehicles) = Suc (length (schedule_runs runs (vehicles_after ?r)))"
    using ret by (simp add: run Let_def)
  show ?case
    unfolding len unfolding run final_vehicles_runs using ret IH grow by simp
qed

text \<open>
  Claim C5. Scheduling is append-only. After any sequence of calls of
  \<^verbatim>\<open>schedule_service\<close>, the history a vehicle had before is an initial segment of its
  history afterwards: every earlier entry is unchanged and at its position. When each of
  the \<open>N\<close> calls returns having selected a service and a date for the vehicle in slot
  \<open>j\<close>, all \<open>N\<close> calls take place and the history of that vehicle is longer by exactly
  \<open>N\<close>.
\<close>

theorem scheduler_append_only:
  "j < length vehicles \<longrightarrow>
     take (length (maintenance_history (vehicles ! j)))
       (maintenance_history (final_vehicles vehicles (schedule_runs runs vehicles) ! j)) =
       maintenance_history (vehicles ! j) \<and>
     ((\<forall>r \<in> set (schedule_runs runs vehicles).
         ending r = None \<and> (\<exists>s d. Create_event j s d \<in> set (trace r))) \<longrightarrow>
      length (schedule_runs runs vehicles) = length runs \<and>
      length (maintenance_history (final_vehicles vehicles (schedule_runs runs vehicles) ! j)) =
        length (maintenance_history (vehicles ! j)) + length runs)"
proof (intro impI conjI)
  assume j: "j < length vehicles"
  then have "prefix (maintenance_history (vehicles ! j))
       (maintenance_history (final_vehicles vehicles (schedule_runs runs vehicles) ! j))"
    by (rule schedule_runs_prefix)
  then show "take (length (maintenance_history (vehicles ! j)))
       (maintenance_history (final_vehicles vehicles (schedule_runs runs vehicles) ! j)) =
       maintenance_history (vehicles ! j)"
    by (auto simp: prefix_def)
next
  assume "j < length vehicles"
    and "\<forall>r \<in> set (schedule_runs runs vehicles).
         ending r = None \<and> (\<exists>s d. Create_event j s d \<in> set (trace r))"
  then show "length (schedule_runs runs vehicles) = length runs"
    and "length (maintenance_history (final_vehicles vehicles (schedule_runs runs vehicles) ! j)) =
        length (maintenance_history (vehicles ! j)) + length runs"
    using schedule_runs_count by blast+
qed

lemma two_runs_results:
  "schedule_runs two_runs [serviced] =
     [returned [serviced\<lparr>maintenance_history := [old_entry, oil_entry]\<rparr>]
        [Create_event 0 ''Oil Change'' \<lparr>ordinal = 739001, microsecond_of_day = 0\<rparr>,
         Send_email ''shop@example.com'' True,
         Save_vehicles [serviced\<lparr>maintenance_history := [old_entry, oil_entry]\<rparr>]],
      returned
        [serviced\<lparr>maintenance_history :=
           [old_entry, oil_entry,
            oil_entry\<lparr>entry_scheduled_date := \<lparr>ordinal = 739005, microsecond_of_day = 0\<rparr>\<rparr>]\<rparr>]
        [Create_event 0 ''Oil Change'' \<lparr>ordinal = 739005, microsecond_of_day = 0\<rparr>,
         Save_vehicles
           [serviced\<lparr>maintenance_history :=
              [old_entry, oil_entry,
               oil_entry\<lparr>entry_scheduled_date := \<lparr>ordinal = 739005, microsecond_of_day = 0\<rparr>\<rparr>]\<rparr>]]]"
  by code_simp

theorem scheduler_append_only_witness:
  "take 1 (maintenance_history
      (final_vehicles [serviced] (schedule_runs two_runs [serviced]) ! 0)) = [old_entry] \<and>
   length (maintenance_history
      (final_vehicles [serviced] (schedule_runs two_runs [serviced]) ! 0)) = 3"
proof -
  have hist: "maintenance_history serviced = [old_entry]"
    by (simp add: serviced_def)
  have all: "\<forall>r \<in> set (schedule_runs two_runs [serviced]).
      ending r = None \<and> (\<exists>s d. Create_event 0 s d \<in> set (trace r))"
    unfolding two_runs_results by (simp add: returned_def)
  have n: "length two_runs = 2" by (simp add: two_runs_def)
  show ?thesis
    using scheduler_append_only [of 0 "[serviced]" two_runs] all
    by (simp add: hist n)
qed

end
